theory Spec2Isabelle
  imports Complex_Main
begin

section \<open>Hardware temperature monitor: the reader, the tick and the tray icon\<close>

text \<open>
  A shallow embedding of \<^verbatim>\<open>cpu_temp_monitor.py\<close>: the class
  \<^verbatim>\<open>HardwareTemperatureReader\<close>, the functions \<^verbatim>\<open>create_temp_icon\<close> and
  \<^verbatim>\<open>send_notification\<close> (as the list of its calls), and the methods
  \<^verbatim>\<open>update_icon\<close>, \<^verbatim>\<open>check_temperatures\<close> and \<^verbatim>\<open>monitoring_loop\<close> of
  \<^verbatim>\<open>HWTempMonitor\<close>.

  Conventions.
  \<^item> A Python value that comes out of \<^verbatim>\<open>json.loads\<close> is a \<open>json\<close>; Python's
    \<^verbatim>\<open>None\<close> is \<open>JNull\<close>. A number is the rational it denotes (every finite float
    is one); comparison, \<^verbatim>\<open>int()\<close> and the \<^verbatim>\<open>.0f\<close> format are exact functions
    of that value. NaN, the infinities, the negative zero and integers beyond the range
    of a float are not covered.
  \<^item> A dictionary is the list of its items, looked up with \<open>map_of\<close>.
  \<^item> A string is the list of its UTF-8 bytes.
  \<^item> An exception that a function lets through is an \<open>Inl\<close> result; the fields
    assigned before the raise keep their new values.
  \<^item> What the outside world answers in one tick (whether the DLL file exists, what the
    PowerShell helper did, what the clock shows) is an argument of the tick.
\<close>

subsection \<open>Python values\<close>

datatype json =
    JNull
  | JBool bool
  | JNum rat
  | JStr string
  | JArr "json list"
  | JObj "(string \<times> json) list"

datatype py_error = AttributeError | TypeError | ValueError

text \<open>Truth value of an object, as \<^verbatim>\<open>not x\<close> and \<^verbatim>\<open>if x:\<close> test it.\<close>

fun truthy :: "json \<Rightarrow> bool" where
  "truthy JNull = False"
| "truthy (JBool b) = b"
| "truthy (JNum x) = (x \<noteq> 0)"
| "truthy (JStr s) = (s \<noteq> [])"
| "truthy (JArr xs) = (xs \<noteq> [])"
| "truthy (JObj kvs) = (kvs \<noteq> [])"

text \<open>
  Sequencing: the first exception ends the computation, as a raise ends the block it
  is in.
\<close>

definition and_then :: "py_error + 'a \<Rightarrow> ('a \<Rightarrow> py_error + 'b) \<Rightarrow> py_error + 'b" where
  "and_then r f = (case r of Inl e \<Rightarrow> Inl e | Inr x \<Rightarrow> f x)"

text \<open>\<^verbatim>\<open>x.get(k, d)\<close>: only a dictionary has the method.\<close>

fun py_get :: "json \<Rightarrow> string \<Rightarrow> json \<Rightarrow> py_error + json" where
  "py_get (JObj kvs) k d = Inr (case map_of kvs k of None \<Rightarrow> d | Some v \<Rightarrow> v)"
| "py_get JNull k d = Inl AttributeError"
| "py_get (JBool b) k d = Inl AttributeError"
| "py_get (JNum x) k d = Inl AttributeError"
| "py_get (JStr s) k d = Inl AttributeError"
| "py_get (JArr xs) k d = Inl AttributeError"

text \<open>
  \<^verbatim>\<open>for x in v\<close>: a list gives its elements, a dictionary its keys, a string its
  characters; nothing else can be iterated.
\<close>

fun py_iter :: "json \<Rightarrow> py_error + json list" where
  "py_iter (JArr xs) = Inr xs"
| "py_iter (JObj kvs) = Inr (map (\<lambda>kv. JStr (fst kv)) kvs)"
| "py_iter (JStr s) = Inr (map (\<lambda>c. JStr [c]) s)"
| "py_iter JNull = Inl TypeError"
| "py_iter (JBool b) = Inl TypeError"
| "py_iter (JNum x) = Inl TypeError"

text \<open>The numeric value of an \<^verbatim>\<open>int\<close>, \<^verbatim>\<open>float\<close> or \<^verbatim>\<open>bool\<close>.\<close>

fun as_number :: "json \<Rightarrow> rat option" where
  "as_number (JNum x) = Some x"
| "as_number (JBool b) = Some (if b then 1 else 0)"
| "as_number JNull = None"
| "as_number (JStr s) = None"
| "as_number (JArr xs) = None"
| "as_number (JObj kvs) = None"

text \<open>\<^verbatim>\<open>v >= c\<close> for a numeric constant \<open>c\<close>: a \<^verbatim>\<open>TypeError\<close> unless \<open>v\<close> is a number.\<close>

definition py_ge :: "json \<Rightarrow> rat \<Rightarrow> py_error + bool" where
  "py_ge v c = (case as_number v of None \<Rightarrow> Inl TypeError | Some x \<Rightarrow> Inr (c \<le> x))"

subsection \<open>Numbers as text\<close>

definition digit_char :: "nat \<Rightarrow> char" where
  "digit_char d = ''0123456789'' ! d"

fun digits_of :: "nat \<Rightarrow> string" where
  "digits_of n = (if n < 10 then [digit_char n] else digits_of (n div 10) @ [digit_char (n mod 10)])"

declare digits_of.simps [simp del]

text \<open>\<^verbatim>\<open>str(k)\<close> of an integer, which is what \<^verbatim>\<open>f"{k}"\<close> prints.\<close>

definition str_int :: "int \<Rightarrow> string" where
  "str_int k = (if k < 0 then ''-'' @ digits_of (nat (- k)) else digits_of (nat k))"

text \<open>\<^verbatim>\<open>int(x)\<close> of a float: the fraction is cut off, towards zero.\<close>

definition py_int :: "rat \<Rightarrow> int" where
  "py_int x = (if x < 0 then \<lceil>x\<rceil> else \<lfloor>x\<rfloor>)"

text \<open>Rounding to the nearest integer, a tie going to the even one, for \<open>0 \<le> y\<close>.\<close>

definition round_half_even :: "rat \<Rightarrow> int" where
  "round_half_even y =
     (let f = \<lfloor>y\<rfloor>; d = y - of_int f in
      if d < 1 / 2 then f
      else if 1 / 2 < d then f + 1
      else if even f then f else f + 1)"

text \<open>\<^verbatim>\<open>f"{x:.0f}"\<close> of a number: sign, then the rounded magnitude.\<close>

definition format_0f :: "rat \<Rightarrow> string" where
  "format_0f x = (if x < 0 then ''-'' else []) @ digits_of (nat (round_half_even \<bar>x\<bar>))"

text \<open>
  The same format applied to any object: a string refuses the code \<^verbatim>\<open>f\<close> with a
  \<^verbatim>\<open>ValueError\<close>, \<^verbatim>\<open>None\<close>, a list and a dictionary refuse every format
  specification with a \<^verbatim>\<open>TypeError\<close>.
\<close>

fun py_format_0f :: "json \<Rightarrow> py_error + string" where
  "py_format_0f (JNum x) = Inr (format_0f x)"
| "py_format_0f (JBool b) = Inr (format_0f (if b then 1 else 0))"
| "py_format_0f (JStr s) = Inl ValueError"
| "py_format_0f JNull = Inl TypeError"
| "py_format_0f (JArr xs) = Inl TypeError"
| "py_format_0f (JObj kvs) = Inl TypeError"

text \<open>The degree sign followed by \<^verbatim>\<open>C\<close>.\<close>

definition deg_C :: string where
  "deg_C = [CHR 0xC2, CHR 0xB0, CHR ''C'']"

text \<open>\<^verbatim>\<open>sep.join(xs)\<close>.\<close>

fun py_join :: "string \<Rightarrow> string list \<Rightarrow> string" where
  "py_join sep [] = []"
| "py_join sep [x] = x"
| "py_join sep (x # y # ys) = x @ sep @ py_join sep (y # ys)"

subsection \<open>Configuration\<close>

definition TEMP_CRITICAL_CPU :: rat where "TEMP_CRITICAL_CPU = 90"
definition TEMP_CRITICAL_GPU :: rat where "TEMP_CRITICAL_GPU = 85"
definition TEMP_CRITICAL_SSD :: rat where "TEMP_CRITICAL_SSD = 70"
definition NOTIFICATION_COOLDOWN :: rat where "NOTIFICATION_COOLDOWN = 60"

subsection \<open>The reader: \<^verbatim>\<open>HardwareTemperatureReader\<close>\<close>

record reader =
  last_error :: "string option"
  dll_available :: bool

text \<open>\<^verbatim>\<open>__init__\<close>; the argument is what \<^verbatim>\<open>DLL_PATH.exists()\<close> answers then.\<close>

definition init_reader :: "bool \<Rightarrow> reader" where
  "init_reader dll_exists = \<lparr>last_error = None, dll_available = dll_exists\<rparr>"

text \<open>
  What the \<^verbatim>\<open>try\<close> block of \<^verbatim>\<open>_run_powershell\<close> meets, one constructor for each
  way through it:
  \<^item> \<open>TimeoutExpired\<close>: \<^verbatim>\<open>subprocess.run\<close> raised \<^verbatim>\<open>TimeoutExpired\<close>;
  \<^item> \<open>Raised m\<close>: any other exception \<open>e\<close> was raised in the block, \<open>m\<close> is \<^verbatim>\<open>str(e)\<close>;
  \<^item> \<open>DecodeError m\<close>: the stripped standard output is not empty and \<^verbatim>\<open>json.loads\<close>
    raised \<^verbatim>\<open>JSONDecodeError\<close> \<open>e\<close> on it, \<open>m\<close> is \<^verbatim>\<open>str(e)\<close>;
  \<^item> \<open>Parsed v\<close>: the stripped standard output is not empty and \<^verbatim>\<open>json.loads\<close>
    returned \<open>v\<close>;
  \<^item> \<open>NoOutput err\<close>: the stripped standard output is empty, \<open>err\<close> is the stripped
    standard error.
\<close>

datatype helper_outcome =
    TimeoutExpired
  | Raised string
  | DecodeError string
  | Parsed json
  | NoOutput string

text \<open>
  \<^verbatim>\<open>_run_powershell\<close>. \<open>dll_exists\<close> is what \<^verbatim>\<open>DLL_PATH.exists()\<close> would answer
  during this call; the code asks only when the cached flag is false.
\<close>

definition run_powershell :: "reader \<Rightarrow> bool \<Rightarrow> helper_outcome \<Rightarrow> json \<times> reader" where
  "run_powershell rd dll_exists out =
     (let rd1 = (if \<not> dll_available rd then rd\<lparr>dll_available := dll_exists\<rparr> else rd) in
      if \<not> dll_available rd \<and> \<not> dll_available rd1 then (JNull, rd1)
      else
        (case out of
           Parsed v \<Rightarrow> (v, rd1)
         | NoOutput err \<Rightarrow> (JNull, if err \<noteq> [] then rd1\<lparr>last_error := Some err\<rparr> else rd1)
         | TimeoutExpired \<Rightarrow> (JNull, rd1\<lparr>last_error := Some ''Timeout reading temperature''\<rparr>)
         | DecodeError m \<Rightarrow> (JNull, rd1\<lparr>last_error := Some (''JSON Parse Error: '' @ m)\<rparr>)
         | Raised m \<Rightarrow> (JNull, rd1\<lparr>last_error := Some m\<rparr>)))"

text \<open>One storage entry of a reading, and the dictionary \<^verbatim>\<open>get_temperatures\<close> builds.\<close>

record ssd =
  name :: json
  temp :: json

record reading =
  cpu :: json
  cpu_name :: json
  gpu :: json
  gpu_name :: json
  ssds :: "ssd list"

text \<open>\<^verbatim>\<open>data.get(k1, {}).get(k2, d)\<close>.\<close>

definition get_get :: "json \<Rightarrow> string \<Rightarrow> string \<Rightarrow> json \<Rightarrow> py_error + json" where
  "get_get data k1 k2 d =
     and_then (py_get data k1 (JObj [])) (\<lambda>c. py_get c k2 d)"

text \<open>The \<^verbatim>\<open>for ssd in ...\<close> loop of \<^verbatim>\<open>get_temperatures\<close>.\<close>

fun collect_ssds :: "json list \<Rightarrow> py_error + ssd list" where
  "collect_ssds [] = Inr []"
| "collect_ssds (x # xs) =
     (case py_get x ''temp'' JNull of
        Inl e \<Rightarrow> Inl e
      | Inr t \<Rightarrow>
          if t \<noteq> JNull then
            (case py_get x ''name'' (JStr ''SSD'') of
               Inl e \<Rightarrow> Inl e
             | Inr n \<Rightarrow>
                 (case collect_ssds xs of
                    Inl e \<Rightarrow> Inl e
                  | Inr r \<Rightarrow> Inr (\<lparr>name = n, temp = t\<rparr> # r)))
          else collect_ssds xs)"

text \<open>The dictionary of the success case.\<close>

definition build_result :: "json \<Rightarrow> py_error + reading" where
  "build_result data =
     and_then (get_get data ''cpu'' ''temp'' JNull) (\<lambda>c.
     and_then (get_get data ''cpu'' ''name'' (JStr ''CPU'')) (\<lambda>cn.
     and_then (get_get data ''gpu'' ''temp'' JNull) (\<lambda>g.
     and_then (get_get data ''gpu'' ''name'' (JStr ''GPU'')) (\<lambda>gn.
     and_then (py_get data ''ssds'' (JArr [])) (\<lambda>l.
     and_then (py_iter l) (\<lambda>xs.
     and_then (collect_ssds xs) (\<lambda>ds.
       Inr \<lparr>cpu = c, cpu_name = cn, gpu = g, gpu_name = gn, ssds = ds\<rparr>)))))))"

text \<open>
  \<^verbatim>\<open>get_temperatures\<close>. The result \<open>None\<close> is the empty dictionary \<^verbatim>\<open>{}\<close>; the
  dictionary of the success case always has its five keys, so it is never empty.
\<close>

definition get_temperatures ::
  "reader \<Rightarrow> bool \<Rightarrow> helper_outcome \<Rightarrow> (py_error + reading option) \<times> reader" where
  "get_temperatures rd dll_exists out =
     (let (data, rd') = run_powershell rd dll_exists out in
      (if \<not> truthy data then Inr None
       else
         (case py_get data ''success'' JNull of
            Inl e \<Rightarrow> Inl e
          | Inr ok \<Rightarrow>
              if \<not> truthy ok then Inr None
              else (case build_result data of Inl e \<Rightarrow> Inl e | Inr r \<Rightarrow> Inr (Some r))),
       rd'))"

subsection \<open>The tray icon and the notification\<close>

text \<open>
  Of the picture \<^verbatim>\<open>create_temp_icon\<close> draws, the colour of the disc and the text in
  it; sizes, fonts and positions are left out.
\<close>

record image =
  bg_color :: "nat \<times> nat \<times> nat"
  temp_text :: string

definition create_temp_icon :: "rat option \<Rightarrow> bool \<Rightarrow> bool \<Rightarrow> bool \<Rightarrow> image" where
  "create_temp_icon t warning critical no_data =
     \<lparr>bg_color =
        (if no_data then (108, 117, 125)
         else if critical then (220, 53, 69)
         else if warning then (255, 193, 7)
         else (40, 167, 69)),
      temp_text = (case t of Some x \<Rightarrow> str_int (py_int x) | None \<Rightarrow> ''?'')\<rparr>"

text \<open>The two attributes of the \<^verbatim>\<open>pystray.Icon\<close> that the monitor assigns.\<close>

record tray_icon =
  icon_image :: image
  title :: string

text \<open>One call of \<^verbatim>\<open>send_notification(title, message, critical)\<close>.\<close>

record notification =
  n_title :: string
  n_message :: string
  n_critical :: bool

subsection \<open>The monitor: \<^verbatim>\<open>HWTempMonitor\<close>\<close>

record monitor =
  running :: bool
  temp_reader :: reader
  temps :: "reading option"
  last_notification_time :: rat
  icon :: "tray_icon option"
  error_shown :: bool
  critical_count :: int

definition init_monitor :: "bool \<Rightarrow> monitor" where
  "init_monitor dll_exists =
     \<lparr>running = True, temp_reader = init_reader dll_exists, temps = None,
      last_notification_time = 0, icon = None, error_shown = False, critical_count = 0\<rparr>"

text \<open>The part of \<^verbatim>\<open>run\<close> before the monitoring thread starts: the icon is created.\<close>

definition run_start :: "monitor \<Rightarrow> monitor" where
  "run_start s =
     s\<lparr>icon := Some \<lparr>icon_image = create_temp_icon None False False True,
                      title = ''HW Temp Monitor''\<rparr>\<rparr>"

text \<open>\<^verbatim>\<open>self.temps.get(k)\<close> for a scalar key, and \<^verbatim>\<open>self.temps.get('ssds', [])\<close>.\<close>

definition temps_get :: "reading option \<Rightarrow> (reading \<Rightarrow> json) \<Rightarrow> json" where
  "temps_get t k = (case t of None \<Rightarrow> JNull | Some r \<Rightarrow> k r)"

definition temps_ssds :: "reading option \<Rightarrow> ssd list" where
  "temps_ssds t = (case t of None \<Rightarrow> [] | Some r \<Rightarrow> ssds r)"

text \<open>
  The name of a storage entry as the tooltip loop computes it,
  \<^verbatim>\<open>ssd['name'][:15] if len(ssd['name']) > 15 else ssd['name']\<close>: \<^verbatim>\<open>len\<close>
  fails on \<^verbatim>\<open>None\<close> and on a number, and a dictionary cannot be sliced (a
  \<^verbatim>\<open>TypeError\<close> up to Python 3.11, a \<^verbatim>\<open>KeyError\<close> after it; the model has the
  first). The slice counts characters; on the bytes of the model that is the same for
  an ASCII name.
\<close>

fun short_name :: "json \<Rightarrow> py_error + json" where
  "short_name (JStr s) = Inr (JStr (if length s > 15 then take 15 s else s))"
| "short_name (JArr xs) = Inr (JArr (if length xs > 15 then take 15 xs else xs))"
| "short_name (JObj kvs) = (if length kvs > 15 then Inl TypeError else Inr (JObj kvs))"
| "short_name JNull = Inl TypeError"
| "short_name (JBool b) = Inl TypeError"
| "short_name (JNum x) = Inl TypeError"

text \<open>
  The loop over the storage entries in \<^verbatim>\<open>update_icon\<close>: the name is computed and
  the appended line is \<^verbatim>\<open>f"SSD: {ssd['temp']:.0f}\<degree>C"\<close>.
\<close>

fun tooltip_ssds :: "ssd list \<Rightarrow> py_error + string list" where
  "tooltip_ssds [] = Inr []"
| "tooltip_ssds (d # ds) =
     (case short_name (name d) of
        Inl e \<Rightarrow> Inl e
      | Inr nm \<Rightarrow>
          (case py_format_0f (temp d) of
             Inl e \<Rightarrow> Inl e
           | Inr t \<Rightarrow>
               (case tooltip_ssds ds of
                  Inl e \<Rightarrow> Inl e
                | Inr r \<Rightarrow> Inr ((''SSD: '' @ t @ deg_C) # r))))"

text \<open>One scalar line of the tooltip: nothing when the value is \<^verbatim>\<open>None\<close>.\<close>

definition tooltip_line :: "string \<Rightarrow> json \<Rightarrow> py_error + string list" where
  "tooltip_line label v =
     (if v \<noteq> JNull then and_then (py_format_0f v) (\<lambda>t. Inr [label @ '': '' @ t @ deg_C])
      else Inr [])"

definition tooltip_lines :: "reading option \<Rightarrow> py_error + string list" where
  "tooltip_lines t =
     and_then (tooltip_line ''CPU'' (temps_get t cpu)) (\<lambda>a.
     and_then (tooltip_line ''GPU'' (temps_get t gpu)) (\<lambda>b.
     and_then (tooltip_ssds (temps_ssds t)) (\<lambda>c.
       Inr (a @ b @ c))))"

text \<open>\<^verbatim>\<open>display_temp is not None and display_temp >= c\<close>.\<close>

definition present_and_ge :: "json \<Rightarrow> rat \<Rightarrow> py_error + bool" where
  "present_and_ge v c = (if v \<noteq> JNull then py_ge v c else Inr False)"

text \<open>The value \<^verbatim>\<open>update_icon\<close> shows: the CPU's, or the GPU's when the CPU has none.\<close>

definition display_temp :: "reading option \<Rightarrow> json" where
  "display_temp t = (if temps_get t cpu = JNull then temps_get t gpu else temps_get t cpu)"

text \<open>
  \<^verbatim>\<open>update_icon\<close>: the exception it lets through, if any, and the monitor afterwards.
  The picture is assigned before the tooltip is built, so it stays when the tooltip
  raises.
\<close>

definition update_icon :: "monitor \<Rightarrow> py_error option \<times> monitor" where
  "update_icon s =
     (case icon s of
        None \<Rightarrow> (None, s)
      | Some ic \<Rightarrow>
          (let d = display_temp (temps s); no_data = (d = JNull) in
           case present_and_ge d 80 of
             Inl e \<Rightarrow> (Some e, s)
           | Inr warning \<Rightarrow>
               (case present_and_ge d TEMP_CRITICAL_CPU of
                  Inl e \<Rightarrow> (Some e, s)
                | Inr critical \<Rightarrow>
                    (let ic1 = ic\<lparr>icon_image :=
                                 create_temp_icon (as_number d) warning critical no_data\<rparr> in
                     case tooltip_lines (temps s) of
                       Inl e \<Rightarrow> (Some e, s\<lparr>icon := Some ic1\<rparr>)
                     | Inr lines \<Rightarrow>
                         (None, s\<lparr>icon := Some (ic1\<lparr>title :=
                            (if lines \<noteq> [] then py_join '' | '' lines else ''No data'')\<rparr>)\<rparr>)))))"

subsection \<open>\<^verbatim>\<open>check_temperatures\<close>\<close>

text \<open>
  A line on the console: \<open>PollError m\<close> is \<^verbatim>\<open>print(f"Error: {last_error}")\<close> in
  \<^verbatim>\<open>check_temperatures\<close>, \<open>LoopError e\<close> is \<^verbatim>\<open>print(f"Error: {e}")\<close> in the
  handler of \<^verbatim>\<open>monitoring_loop\<close>.
\<close>

datatype log_line = PollError string | LoopError py_error

text \<open>
  What one call did: the exception it let through, the monitor afterwards, the lines
  printed and the calls of \<^verbatim>\<open>send_notification\<close>.
\<close>

record call =
  raised :: "py_error option"
  after :: monitor
  printed :: "log_line list"
  notified :: "notification list"

text \<open>\<^verbatim>\<open>if v is not None and v >= thr: critical_components.append(f"LABEL: {v:.0f}\<degree>C")\<close>.\<close>

definition critical_line :: "string \<Rightarrow> json \<Rightarrow> rat \<Rightarrow> py_error + string list" where
  "critical_line label v thr =
     and_then (present_and_ge v thr) (\<lambda>b.
       if b then and_then (py_format_0f v) (\<lambda>t. Inr [label @ '': '' @ t @ deg_C])
       else Inr [])"

text \<open>The loop over the storage entries; here the value is compared without a test for \<^verbatim>\<open>None\<close>.\<close>

fun critical_ssds :: "ssd list \<Rightarrow> py_error + string list" where
  "critical_ssds [] = Inr []"
| "critical_ssds (d # ds) =
     (case py_ge (temp d) TEMP_CRITICAL_SSD of
        Inl e \<Rightarrow> Inl e
      | Inr b \<Rightarrow>
          (case (if b then and_then (py_format_0f (temp d)) (\<lambda>t. Inr [''SSD: '' @ t @ deg_C])
                 else Inr []) of
             Inl e \<Rightarrow> Inl e
           | Inr l \<Rightarrow>
               (case critical_ssds ds of
                  Inl e \<Rightarrow> Inl e
                | Inr r \<Rightarrow> Inr (l @ r))))"

definition critical_components :: "reading option \<Rightarrow> py_error + string list" where
  "critical_components t =
     and_then (critical_line ''CPU'' (temps_get t cpu) TEMP_CRITICAL_CPU) (\<lambda>a.
     and_then (critical_line ''GPU'' (temps_get t gpu) TEMP_CRITICAL_GPU) (\<lambda>b.
     and_then (critical_ssds (temps_ssds t)) (\<lambda>c.
       Inr (a @ b @ c))))"

text \<open>\<^verbatim>\<open>if self.temp_reader.last_error:\<close> holds for a string that is not empty.\<close>

definition error_text :: "string option \<Rightarrow> log_line list" where
  "error_text e = (case e of None \<Rightarrow> [] | Some m \<Rightarrow> if m \<noteq> [] then [PollError m] else [])"

text \<open>The notification of \<^verbatim>\<open>check_temperatures\<close>; the title starts with the fire emoji.\<close>

definition critical_alert :: "string list \<Rightarrow> notification" where
  "critical_alert cc =
     \<lparr>n_title = [CHR 0xF0, CHR 0x9F, CHR 0x94, CHR 0xA5] @ '' CRITICAL TEMPERATURE!'',
      n_message = py_join [CHR 0x0A] cc @ [CHR 0x0A] @ ''Check your system cooling!'',
      n_critical = True\<rparr>"

text \<open>
  The part of \<^verbatim>\<open>check_temperatures\<close> after the list of critical components is
  built: the clock is read, the counter is stepped, and the alert is sent when the
  counter and the time since the last alert allow it.
\<close>

definition count_and_alert :: "monitor \<Rightarrow> string list \<Rightarrow> rat \<Rightarrow> call" where
  "count_and_alert s cc current_time =
     (let time_since_last = current_time - last_notification_time s;
          s1 = (if cc \<noteq> [] then s\<lparr>critical_count := critical_count s + 1\<rparr>
                else s\<lparr>critical_count := 0\<rparr>) in
      if 2 \<le> critical_count s1 \<and> NOTIFICATION_COOLDOWN \<le> time_since_last then
        \<lparr>raised = None, after = s1\<lparr>last_notification_time := current_time\<rparr>,
         printed = [], notified = [critical_alert cc]\<rparr>
      else \<lparr>raised = None, after = s1, printed = [], notified = []\<rparr>)"

text \<open>
  \<^verbatim>\<open>check_temperatures\<close>. \<open>dll_exists\<close> and \<open>out\<close> are what the reader meets in this
  call, \<open>current_time\<close> is what \<^verbatim>\<open>time.time()\<close> returns.
\<close>

definition check_temperatures :: "monitor \<Rightarrow> bool \<Rightarrow> helper_outcome \<Rightarrow> rat \<Rightarrow> call" where
  "check_temperatures s dll_exists out current_time =
     (case get_temperatures (temp_reader s) dll_exists out of
        (Inl e, rd) \<Rightarrow>
          \<lparr>raised = Some e, after = s\<lparr>temp_reader := rd\<rparr>, printed = [], notified = []\<rparr>
      | (Inr t, rd) \<Rightarrow>
          (let s1 = s\<lparr>temp_reader := rd, temps := t\<rparr> in
           if t = None \<and> \<not> error_shown s1 then
             \<lparr>raised = None, after = s1\<lparr>error_shown := True\<rparr>,
              printed = error_text (last_error rd), notified = []\<rparr>
           else
             (let s2 = (if t \<noteq> None then s1\<lparr>error_shown := False\<rparr> else s1) in
              case critical_components t of
                Inl e \<Rightarrow> \<lparr>raised = Some e, after = s2, printed = [], notified = []\<rparr>
              | Inr cc \<Rightarrow> count_and_alert s2 cc current_time)))"

subsection \<open>\<^verbatim>\<open>monitoring_loop\<close>\<close>

text \<open>What the outside world answers during one pass of the loop.\<close>

record tick_input =
  dll_exists :: bool
  helper :: helper_outcome
  now :: rat

text \<open>
  The body of the loop: \<^verbatim>\<open>check_temperatures\<close>, then \<^verbatim>\<open>update_icon\<close>, and the
  handler that prints whatever either of them raised.
\<close>

definition loop_body :: "monitor \<Rightarrow> tick_input \<Rightarrow> call" where
  "loop_body s i =
     (let c = check_temperatures s (dll_exists i) (helper i) (now i) in
      case raised c of
        Some e \<Rightarrow> c\<lparr>raised := None, printed := printed c @ [LoopError e]\<rparr>
      | None \<Rightarrow>
          (case update_icon (after c) of
             (Some e, s') \<Rightarrow> c\<lparr>after := s', printed := printed c @ [LoopError e]\<rparr>
           | (None, s') \<Rightarrow> c\<lparr>after := s'\<rparr>))"

text \<open>
  \<^verbatim>\<open>monitoring_loop\<close> over the passes for which the outside world's answers are
  given: the list of what each pass did. The loop ends when \<^verbatim>\<open>running\<close> is false.
\<close>

fun monitoring_loop :: "monitor \<Rightarrow> tick_input list \<Rightarrow> call list" where
  "monitoring_loop s [] = []"
| "monitoring_loop s (i # is) =
     (if running s then
        (let c = loop_body s i in c # monitoring_loop (after c) is)
      else [])"

subsection \<open>Notions used to state the properties\<close>

text \<open>A component is at or above a threshold when it is a number that is.\<close>

definition at_or_above :: "json \<Rightarrow> rat \<Rightarrow> bool" where
  "at_or_above v thr = (case as_number v of None \<Rightarrow> False | Some x \<Rightarrow> thr \<le> x)"

text \<open>Some component of the reading is at or above its critical threshold.\<close>

definition some_critical :: "reading option \<Rightarrow> bool" where
  "some_critical t \<longleftrightarrow>
     at_or_above (temps_get t cpu) 90 \<or> at_or_above (temps_get t gpu) 85 \<or>
     list_ex (\<lambda>d. at_or_above (temp d) 70) (temps_ssds t)"

text \<open>
  The monitor of \<^verbatim>\<open>check_temperatures\<close> when the reading \<open>r\<close> has been stored
  and the flag \<^verbatim>\<open>error_shown\<close> cleared for a reading that is not empty.
\<close>

definition polled :: "monitor \<Rightarrow> reading option \<Rightarrow> reader \<Rightarrow> monitor" where
  "polled s r rd =
     (if r \<noteq> None then s\<lparr>temp_reader := rd, temps := r, error_shown := False\<rparr>
      else s\<lparr>temp_reader := rd, temps := r\<rparr>)"

text \<open>
  The severity a picture shows, read from the colour of its disc: grey, red, amber and
  green are the colours \<^verbatim>\<open>create_temp_icon\<close> uses for \<^verbatim>\<open>no_data\<close>,
  \<^verbatim>\<open>critical\<close>, \<^verbatim>\<open>warning\<close> and none of them.
\<close>

datatype tier = NoData | Normal | Warning | Critical

definition glyph_tier :: "image \<Rightarrow> tier option" where
  "glyph_tier im =
     (if bg_color im = (108, 117, 125) then Some NoData
      else if bg_color im = (220, 53, 69) then Some Critical
      else if bg_color im = (255, 193, 7) then Some Warning
      else if bg_color im = (40, 167, 69) then Some Normal
      else None)"

text \<open>Every pass of the loop over the given answers meets a poll that returns \<^verbatim>\<open>{}\<close>.\<close>

fun polls_fail :: "monitor \<Rightarrow> tick_input list \<Rightarrow> bool" where
  "polls_fail s [] = True"
| "polls_fail s (i # is) =
     (fst (get_temperatures (temp_reader s) (dll_exists i) (helper i)) = Inr None \<and>
      polls_fail (after (loop_body s i)) is)"

text \<open>A member of a document that is an object, with a default; the default otherwise.\<close>

definition is_obj :: "json \<Rightarrow> bool" where
  "is_obj v = (case v of JObj kvs \<Rightarrow> True | _ \<Rightarrow> False)"

definition field_of :: "json \<Rightarrow> string \<Rightarrow> json \<Rightarrow> json" where
  "field_of v k d =
     (case v of JObj kvs \<Rightarrow> (case map_of kvs k of None \<Rightarrow> d | Some x \<Rightarrow> x) | _ \<Rightarrow> d)"

text \<open>
  The helper's outcomes that are a failure: a timeout, an exception, output that does
  not decode, no output, and a document that is falsy or an object whose
  \<^verbatim>\<open>success\<close> is.
\<close>

definition reports_failure :: "helper_outcome \<Rightarrow> bool" where
  "reports_failure out =
     (case out of
        Parsed v \<Rightarrow> (if truthy v then is_obj v \<and> \<not> truthy (field_of v ''success'' JNull) else True)
      | _ \<Rightarrow> True)"

text \<open>The cause a call of the helper leaves in \<^verbatim>\<open>last_error\<close>, if it leaves one.\<close>

definition recorded_cause :: "helper_outcome \<Rightarrow> string option" where
  "recorded_cause out =
     (case out of
        TimeoutExpired \<Rightarrow> Some ''Timeout reading temperature''
      | Raised m \<Rightarrow> Some m
      | DecodeError m \<Rightarrow> Some (''JSON Parse Error: '' @ m)
      | NoOutput err \<Rightarrow> if err \<noteq> [] then Some err else None
      | Parsed v \<Rightarrow> None)"

text \<open>
  A success document of the shape the helper's interface gives: an object whose
  \<^verbatim>\<open>success\<close> is truthy, whose \<^verbatim>\<open>cpu\<close> and \<^verbatim>\<open>gpu\<close>, where present, are
  objects, and whose \<^verbatim>\<open>ssds\<close>, where present, is a list of objects.
\<close>

definition well_shaped :: "json \<Rightarrow> bool" where
  "well_shaped v \<longleftrightarrow>
     is_obj v \<and> truthy (field_of v ''success'' JNull) \<and>
     is_obj (field_of v ''cpu'' (JObj [])) \<and> is_obj (field_of v ''gpu'' (JObj [])) \<and>
     (case field_of v ''ssds'' (JArr []) of JArr xs \<Rightarrow> list_all is_obj xs | _ \<Rightarrow> False)"

text \<open>The storage entries of a document that have a temperature, in their order.\<close>

definition ssd_entries :: "json \<Rightarrow> ssd list" where
  "ssd_entries l =
     (case l of
        JArr xs \<Rightarrow>
          map (\<lambda>x. \<lparr>name = field_of x ''name'' (JStr ''SSD''), temp = field_of x ''temp'' JNull\<rparr>)
            (filter (\<lambda>x. field_of x ''temp'' JNull \<noteq> JNull) xs)
      | _ \<Rightarrow> [])"

text \<open>The number a string of decimal digits denotes.\<close>

definition digit_value :: "char \<Rightarrow> nat" where
  "digit_value c = of_char c - 48"

definition decimal_value :: "string \<Rightarrow> nat" where
  "decimal_value s = foldl (\<lambda>a c. 10 * a + digit_value c) 0 s"

subsection \<open>Example documents and inputs\<close>

text \<open>A success document of the helper with the given CPU, GPU and storage entries.\<close>

definition sensor :: "string \<Rightarrow> json \<Rightarrow> json" where
  "sensor n t = JObj [(''name'', JStr n), (''temp'', t)]"

definition document :: "json \<Rightarrow> json \<Rightarrow> json list \<Rightarrow> json" where
  "document c g ds =
     JObj [(''success'', JBool True), (''cpu'', sensor ''i7-12700KF'' c),
           (''gpu'', sensor ''RTX 3070'' g), (''ssds'', JArr ds)]"

text \<open>CPU at 50 degrees, no GPU value, one storage device at 75 degrees.\<close>

definition cool_cpu_hot_ssd :: json where
  "cool_cpu_hot_ssd = document (JNum 50) JNull [sensor ''Samsung SSD 980 PRO 1TB'' (JNum 75)]"

text \<open>CPU at 95 degrees, GPU at 60, no storage device.\<close>

definition hot_cpu :: json where
  "hot_cpu = document (JNum 95) (JNum 60) []"

text \<open>No CPU value, GPU at 86 degrees.\<close>

definition gpu_only :: json where
  "gpu_only = document JNull (JNum 86) []"

text \<open>The helper ran and reported that it failed.\<close>

definition no_success :: json where
  "no_success = JObj [(''success'', JBool False), (''error'', JStr ''Access denied'')]"

definition tick_at :: "rat \<Rightarrow> helper_outcome \<Rightarrow> tick_input" where
  "tick_at t out = \<lparr>dll_exists = True, helper = out, now = t\<rparr>"

text \<open>The monitor when the monitoring thread starts, the DLL being there.\<close>

definition started :: monitor where
  "started = run_start (init_monitor True)"

text \<open>The monitor after one pass that read \<open>hot_cpu\<close> at time 100.\<close>

definition after_one_hot_tick :: monitor where
  "after_one_hot_tick = after (loop_body started (tick_at 100 (Parsed hot_cpu)))"

text \<open>The monitor after one pass that read \<open>gpu_only\<close> at time 100.\<close>

definition gpu_only_stored :: monitor where
  "gpu_only_stored = after (loop_body started (tick_at 100 (Parsed gpu_only)))"

text \<open>CPU at 50 degrees, GPU at 40, no storage device: nothing is critical.\<close>

definition calm :: json where
  "calm = document (JNum 50) (JNum 40) []"

text \<open>The monitor after one pass that read \<open>calm\<close> at time 0: a successful read.\<close>

definition after_one_calm_tick :: monitor where
  "after_one_calm_tick = after (loop_body started (tick_at 0 (Parsed calm)))"

text \<open>
  Five passes in a row whose poll fails: the helper prints nothing but an error text in
  the first list, and reports that it failed in the second.
\<close>

definition five_failures :: "tick_input list" where
  "five_failures = map (\<lambda>t. tick_at t (NoOutput ''Access denied'')) [3, 6, 9, 12, 15]"

definition five_quiet_failures :: "tick_input list" where
  "five_quiet_failures = map (\<lambda>t. tick_at t (Parsed no_success)) [3, 6, 9, 12, 15]"

text \<open>The monitor after the successful read and the five failures of the first list.\<close>

definition after_five_failures :: monitor where
  "after_five_failures = after (last (monitoring_loop after_one_calm_tick five_failures))"

text \<open>A critical pass, a pass whose poll fails, a critical pass.\<close>

definition hot_fail_hot :: "tick_input list" where
  "hot_fail_hot =
     [tick_at 100 (Parsed hot_cpu), tick_at 103 (NoOutput []), tick_at 106 (Parsed hot_cpu)]"

text \<open>The value that is nearest to \<open>x\<close>, as a label.\<close>

definition rounded_label :: "rat \<Rightarrow> string" where
  "rounded_label x = str_int (round x)"

section \<open>Properties\<close>

subsection \<open>The ways through \<^verbatim>\<open>check_temperatures\<close>\<close>

lemma check_temperatures_poll_raised:
  "get_temperatures (temp_reader s) e out = (Inl err, rd) \<Longrightarrow>
   check_temperatures s e out t =
     \<lparr>raised = Some err, after = s\<lparr>temp_reader := rd\<rparr>, printed = [], notified = []\<rparr>"
  by (simp add: check_temperatures_def)

lemma check_temperatures_first_failure:
  "get_temperatures (temp_reader s) e out = (Inr None, rd) \<Longrightarrow> \<not> error_shown s \<Longrightarrow>
   check_temperatures s e out t =
     \<lparr>raised = None, after = s\<lparr>temp_reader := rd, temps := None, error_shown := True\<rparr>,
      printed = error_text (last_error rd), notified = []\<rparr>"
  by (simp add: check_temperatures_def)

lemma check_temperatures_components_raised:
  "get_temperatures (temp_reader s) e out = (Inr r, rd) \<Longrightarrow> r \<noteq> None \<or> error_shown s \<Longrightarrow>
   critical_components r = Inl err \<Longrightarrow>
   check_temperatures s e out t =
     \<lparr>raised = Some err, after = polled s r rd, printed = [], notified = []\<rparr>"
  by (auto simp: check_temperatures_def polled_def Let_def)

lemma check_temperatures_counted:
  "get_temperatures (temp_reader s) e out = (Inr r, rd) \<Longrightarrow> r \<noteq> None \<or> error_shown s \<Longrightarrow>
   critical_components r = Inr cc \<Longrightarrow>
   check_temperatures s e out t = count_and_alert (polled s r rd) cc t"
  by (auto simp: check_temperatures_def polled_def Let_def)

lemma critical_components_empty: "critical_components None = Inr []"
  by (simp add: critical_components_def critical_line_def present_and_ge_def
      temps_get_def temps_ssds_def and_then_def)

subsection \<open>The list of critical components\<close>

lemma critical_line_nonempty:
  "critical_line l v thr = Inr a \<Longrightarrow> (a \<noteq> [] \<longleftrightarrow> at_or_above v thr)"
  by (cases v) (auto simp: critical_line_def present_and_ge_def py_ge_def at_or_above_def
      and_then_def split: if_splits sum.splits)

lemma critical_ssds_nonempty:
  "critical_ssds ds = Inr l \<Longrightarrow> (l \<noteq> [] \<longleftrightarrow> list_ex (\<lambda>d. at_or_above (temp d) 70) ds)"
proof (induction ds arbitrary: l)
  case Nil
  then show ?case by simp
next
  case (Cons d ds)
  then show ?case
    by (cases "temp d")
      (auto simp: py_ge_def at_or_above_def and_then_def TEMP_CRITICAL_SSD_def
        split: if_splits sum.splits)
qed

lemma critical_components_nonempty:
  assumes "critical_components t = Inr cc"
  shows "cc \<noteq> [] \<longleftrightarrow> some_critical t"
proof -
  from assms obtain a b c where
    a: "critical_line ''CPU'' (temps_get t cpu) TEMP_CRITICAL_CPU = Inr a" and
    b: "critical_line ''GPU'' (temps_get t gpu) TEMP_CRITICAL_GPU = Inr b" and
    c: "critical_ssds (temps_ssds t) = Inr c" and
    cc: "cc = a @ b @ c"
    by (auto simp: critical_components_def and_then_def split: sum.splits)
  from critical_line_nonempty [OF a] critical_line_nonempty [OF b] critical_ssds_nonempty [OF c]
  show ?thesis
    by (auto simp: cc some_critical_def TEMP_CRITICAL_CPU_def TEMP_CRITICAL_GPU_def)
qed

subsection \<open>Counting and alerting\<close>

lemma count_and_alert_notified:
  "notified (count_and_alert s cc t) \<noteq> [] \<Longrightarrow>
     cc \<noteq> [] \<and> 2 \<le> critical_count (after (count_and_alert s cc t)) \<and>
     60 \<le> t - last_notification_time s \<and>
     after (count_and_alert s cc t) =
       s\<lparr>critical_count := critical_count s + 1, last_notification_time := t\<rparr> \<and>
     notified (count_and_alert s cc t) = [critical_alert cc]"
  by (auto simp: count_and_alert_def Let_def NOTIFICATION_COOLDOWN_def split: if_splits)

lemma count_and_alert_clock:
  "notified (count_and_alert s cc t') = [] \<Longrightarrow> notified (count_and_alert s cc t) \<noteq> [] \<Longrightarrow>
   after (count_and_alert s cc t) =
     (after (count_and_alert s cc t'))\<lparr>last_notification_time := t\<rparr>"
  by (auto simp: count_and_alert_def Let_def split: if_splits)

text \<open>
  An alert comes out of the last step only, and from a reading that is not empty: the
  facts both alert theorems start from.
\<close>

lemma alert_comes_from_counting:
  assumes "notified (check_temperatures s e out t) \<noteq> []"
  shows "\<exists>r rd cc.
           get_temperatures (temp_reader s) e out = (Inr (Some r), rd) \<and>
           critical_components (Some r) = Inr cc \<and>
           (\<forall>u. check_temperatures s e out u =
                  count_and_alert (s\<lparr>temp_reader := rd, temps := Some r, error_shown := False\<rparr>) cc u)"
proof -
  obtain res rd where g: "get_temperatures (temp_reader s) e out = (res, rd)"
    by (cases "get_temperatures (temp_reader s) e out")
  show ?thesis
  proof (cases res)
    case (Inl err)
    with assms g show ?thesis by (simp add: check_temperatures_poll_raised)
  next
    case (Inr r)
    show ?thesis
    proof (cases "r \<noteq> None \<or> error_shown s")
      case False
      with assms g Inr show ?thesis by (simp add: check_temperatures_first_failure)
    next
      case True
      show ?thesis
      proof (cases "critical_components r")
        case (Inl err)
        with assms g Inr True show ?thesis
          by (simp add: check_temperatures_components_raised)
      next
        case cc: (Inr cc)
        have eq: "check_temperatures s e out u = count_and_alert (polled s r rd) cc u" for u
          using g Inr True cc by (simp add: check_temperatures_counted)
        from assms have "notified (count_and_alert (polled s r rd) cc t) \<noteq> []"
          by (simp add: eq)
        from count_and_alert_notified [OF this] have "cc \<noteq> []" by simp
        with cc critical_components_empty obtain rr where rr: "r = Some rr"
          by (cases r) auto
        with g Inr cc eq show ?thesis by (simp add: polled_def)
      qed
    qed
  qed
qed

subsection \<open>When an alert is delivered\<close>

text \<open>
  Claim C1. In every call of \<^verbatim>\<open>check_temperatures\<close>, whatever the monitor, the
  helper's outcome and the clock: if \<^verbatim>\<open>send_notification\<close> is called, then the poll
  returned a reading, the list of critical components built from it is not empty (some
  component is at or above its critical threshold: CPU 90, GPU 85, storage 70), the
  counter \<^verbatim>\<open>critical_count\<close> is at least 2 after this call, and at least 60 seconds
  lie between the clock and \<^verbatim>\<open>last_notification_time\<close>, which starts at 0 in a new
  monitor. The call made is the one critical alert built from that list.
\<close>

theorem alert_only_if_critical_debounced_cooled:
  assumes "notified (check_temperatures s e out t) \<noteq> []"
  shows "\<exists>r rd cc.
           get_temperatures (temp_reader s) e out = (Inr r, rd) \<and>
           critical_components r = Inr cc \<and> cc \<noteq> [] \<and> some_critical r \<and>
           notified (check_temperatures s e out t) = [critical_alert cc] \<and>
           2 \<le> critical_count (after (check_temperatures s e out t)) \<and>
           60 \<le> t - last_notification_time s \<and>
           last_notification_time (init_monitor e0) = 0"
proof -
  from alert_comes_from_counting [OF assms] obtain r rd cc where
    g: "get_temperatures (temp_reader s) e out = (Inr (Some r), rd)" and
    cc: "critical_components (Some r) = Inr cc" and
    eq: "check_temperatures s e out t =
           count_and_alert (s\<lparr>temp_reader := rd, temps := Some r, error_shown := False\<rparr>) cc t"
    by blast
  from assms have "notified (count_and_alert
      (s\<lparr>temp_reader := rd, temps := Some r, error_shown := False\<rparr>) cc t) \<noteq> []"
    by (simp add: eq)
  from count_and_alert_notified [OF this, folded eq] have
    c: "cc \<noteq> []"
      "2 \<le> critical_count (after (check_temperatures s e out t))"
      "60 \<le> t - last_notification_time s"
      "notified (check_temperatures s e out t) = [critical_alert cc]"
    by auto
  from critical_components_nonempty [OF cc] c(1) have "some_critical (Some r)"
    by simp
  moreover have "last_notification_time (init_monitor e0) = 0"
    by (simp add: init_monitor_def)
  ultimately show ?thesis using g cc c by blast
qed

theorem alert_only_if_witness:
  "notified (check_temperatures after_one_hot_tick True (Parsed hot_cpu) 103) \<noteq> [] \<and>
   (\<exists>r rd cc.
      get_temperatures (temp_reader after_one_hot_tick) True (Parsed hot_cpu) = (Inr r, rd) \<and>
      critical_components r = Inr cc \<and> cc \<noteq> [] \<and> some_critical r \<and>
      notified (check_temperatures after_one_hot_tick True (Parsed hot_cpu) 103) =
        [critical_alert cc] \<and>
      2 \<le> critical_count (after (check_temperatures after_one_hot_tick True (Parsed hot_cpu) 103)) \<and>
      60 \<le> 103 - last_notification_time after_one_hot_tick \<and>
      last_notification_time (init_monitor True) = 0)"
proof -
  have h: "notified (check_temperatures after_one_hot_tick True (Parsed hot_cpu) 103) \<noteq> []"
    by code_simp
  from h alert_only_if_critical_debounced_cooled [OF h, of True] show ?thesis by blast
qed

text \<open>
  Claim C3. In every call of \<^verbatim>\<open>check_temperatures\<close> that sends an alert, the monitor
  afterwards is the one before with the reader and the reading of this poll stored,
  \<^verbatim>\<open>error_shown\<close> cleared, \<^verbatim>\<open>critical_count\<close> one higher than before and
  \<^verbatim>\<open>last_notification_time\<close> equal to the clock; and against the same call at any other
  clock value at which no alert is sent, it differs in \<^verbatim>\<open>last_notification_time\<close> alone,
  so the counter is the incremented one and sending changes nothing else.
\<close>

theorem alert_sets_timestamp_only:
  assumes "notified (check_temperatures s e out t) \<noteq> []"
  shows "\<exists>r rd.
           get_temperatures (temp_reader s) e out = (Inr (Some r), rd) \<and>
           after (check_temperatures s e out t) =
             s\<lparr>temp_reader := rd, temps := Some r, error_shown := False,
               critical_count := critical_count s + 1, last_notification_time := t\<rparr> \<and>
           (\<forall>t'. notified (check_temperatures s e out t') = [] \<longrightarrow>
              after (check_temperatures s e out t) =
                (after (check_temperatures s e out t'))\<lparr>last_notification_time := t\<rparr>)"
proof -
  from alert_comes_from_counting [OF assms] obtain r rd cc where
    g: "get_temperatures (temp_reader s) e out = (Inr (Some r), rd)" and
    eq: "\<And>u. check_temperatures s e out u =
           count_and_alert (s\<lparr>temp_reader := rd, temps := Some r, error_shown := False\<rparr>) cc u"
    by blast
  from assms have n: "notified (count_and_alert
      (s\<lparr>temp_reader := rd, temps := Some r, error_shown := False\<rparr>) cc t) \<noteq> []"
    by (simp add: eq)
  from count_and_alert_notified [OF n] have
    "after (check_temperatures s e out t) =
       s\<lparr>temp_reader := rd, temps := Some r, error_shown := False,
         critical_count := critical_count s + 1, last_notification_time := t\<rparr>"
    by (simp add: eq)
  moreover have
    "\<forall>t'. notified (check_temperatures s e out t') = [] \<longrightarrow>
        after (check_temperatures s e out t) =
          (after (check_temperatures s e out t'))\<lparr>last_notification_time := t\<rparr>"
    using count_and_alert_clock [OF _ n] by (simp add: eq)
  ultimately show ?thesis using g by simp
qed

theorem alert_sets_timestamp_witness:
  "notified (check_temperatures after_one_hot_tick True (Parsed hot_cpu) 103) \<noteq> [] \<and>
   notified (check_temperatures after_one_hot_tick True (Parsed hot_cpu) 10) = [] \<and>
   critical_count (after (check_temperatures after_one_hot_tick True (Parsed hot_cpu) 103)) =
     critical_count after_one_hot_tick + 1 \<and>
   last_notification_time (after (check_temperatures after_one_hot_tick True (Parsed hot_cpu) 103)) =
     103 \<and>
   after (check_temperatures after_one_hot_tick True (Parsed hot_cpu) 103) =
     (after (check_temperatures after_one_hot_tick True (Parsed hot_cpu) 10))
       \<lparr>last_notification_time := 103\<rparr>"
proof -
  have h: "notified (check_temperatures after_one_hot_tick True (Parsed hot_cpu) 103) \<noteq> []"
    by code_simp
  have q: "notified (check_temperatures after_one_hot_tick True (Parsed hot_cpu) 10) = []"
    by code_simp
  from alert_sets_timestamp_only [OF h] obtain r rd where
    a: "after (check_temperatures after_one_hot_tick True (Parsed hot_cpu) 103) =
          after_one_hot_tick\<lparr>temp_reader := rd, temps := Some r, error_shown := False,
            critical_count := critical_count after_one_hot_tick + 1,
            last_notification_time := 103\<rparr>" and
    b: "\<forall>t'. notified (check_temperatures after_one_hot_tick True (Parsed hot_cpu) t') = [] \<longrightarrow>
          after (check_temperatures after_one_hot_tick True (Parsed hot_cpu) 103) =
            (after (check_temperatures after_one_hot_tick True (Parsed hot_cpu) t'))
              \<lparr>last_notification_time := 103\<rparr>"
    by blast
  from b q have
    "after (check_temperatures after_one_hot_tick True (Parsed hot_cpu) 103) =
       (after (check_temperatures after_one_hot_tick True (Parsed hot_cpu) 10))
         \<lparr>last_notification_time := 103\<rparr>"
    by blast
  with h q a show ?thesis by simp
qed

subsection \<open>The reader\<close>

lemma get_temperatures_no_dll:
  "\<not> dll_available rd \<Longrightarrow> get_temperatures rd False out = (Inr None, rd)"
  by (simp add: get_temperatures_def run_powershell_def)

lemma get_temperatures_dll_appears:
  "\<not> dll_available rd \<Longrightarrow>
   get_temperatures rd True out = get_temperatures (rd\<lparr>dll_available := True\<rparr>) True out"
  by (simp add: get_temperatures_def run_powershell_def)

lemma get_temperatures_dll_cached:
  "dll_available rd \<Longrightarrow> get_temperatures rd e out = get_temperatures rd e' out"
  by (simp add: get_temperatures_def run_powershell_def)

lemma get_temperatures_dll_after:
  "dll_available (snd (get_temperatures rd e out)) = (dll_available rd \<or> e)"
  by (cases out) (auto simp: get_temperatures_def run_powershell_def Let_def split: prod.splits)

lemma collect_ssds_have_temp:
  "collect_ssds xs = Inr ds \<Longrightarrow> list_all (\<lambda>d. temp d \<noteq> JNull) ds"
proof (induction xs arbitrary: ds)
  case Nil
  then show ?case by simp
next
  case (Cons x xs)
  then show ?case by (auto split: sum.splits if_splits)
qed

lemma build_result_have_temp:
  "build_result data = Inr r \<Longrightarrow> list_all (\<lambda>d. temp d \<noteq> JNull) (ssds r)"
  by (auto simp: build_result_def and_then_def split: sum.splits dest: collect_ssds_have_temp)

lemma get_temperatures_have_temp:
  "get_temperatures rd e out = (Inr (Some r), rd') \<Longrightarrow>
   list_all (\<lambda>d. temp d \<noteq> JNull) (ssds r)"
  by (auto simp: get_temperatures_def Let_def split: prod.splits sum.splits if_splits
      dest: build_result_have_temp)

lemma get_temperatures_failure:
  "reports_failure out \<Longrightarrow> fst (get_temperatures rd e out) = Inr None"
  by (cases out)
    (auto simp: reports_failure_def get_temperatures_def run_powershell_def Let_def
      is_obj_def field_of_def split: prod.splits json.splits if_splits)

lemma get_temperatures_cause:
  "last_error (snd (get_temperatures rd e out)) =
     (if \<not> dll_available rd \<and> \<not> e then last_error rd
      else case recorded_cause out of None \<Rightarrow> last_error rd | Some m \<Rightarrow> Some m)"
  by (cases out)
    (auto simp: recorded_cause_def get_temperatures_def run_powershell_def Let_def
      split: prod.splits)

lemma py_get_obj: "is_obj v \<Longrightarrow> py_get v k d = Inr (field_of v k d)"
  by (cases v) (simp_all add: is_obj_def field_of_def)

lemma collect_ssds_objs:
  "list_all is_obj xs \<Longrightarrow> collect_ssds xs = Inr (ssd_entries (JArr xs))"
  by (induction xs) (simp_all add: ssd_entries_def py_get_obj)

lemma build_result_well_shaped:
  assumes "well_shaped v"
  shows "build_result v =
     Inr \<lparr>cpu = field_of (field_of v ''cpu'' (JObj [])) ''temp'' JNull,
          cpu_name = field_of (field_of v ''cpu'' (JObj [])) ''name'' (JStr ''CPU''),
          gpu = field_of (field_of v ''gpu'' (JObj [])) ''temp'' JNull,
          gpu_name = field_of (field_of v ''gpu'' (JObj [])) ''name'' (JStr ''GPU''),
          ssds = ssd_entries (field_of v ''ssds'' (JArr []))\<rparr>"
proof -
  from assms obtain xs where
    xs: "field_of v ''ssds'' (JArr []) = JArr xs" "list_all is_obj xs"
    by (auto simp: well_shaped_def split: json.splits)
  from assms have
    o: "is_obj v" "is_obj (field_of v ''cpu'' (JObj []))" "is_obj (field_of v ''gpu'' (JObj []))"
    by (simp_all add: well_shaped_def)
  show ?thesis
    by (simp add: build_result_def get_get_def and_then_def py_get_obj o xs collect_ssds_objs)
qed

lemma get_temperatures_well_shaped:
  assumes "well_shaped v" and "dll_available rd \<or> e"
  shows "fst (get_temperatures rd e (Parsed v)) =
     Inr (Some \<lparr>cpu = field_of (field_of v ''cpu'' (JObj [])) ''temp'' JNull,
          cpu_name = field_of (field_of v ''cpu'' (JObj [])) ''name'' (JStr ''CPU''),
          gpu = field_of (field_of v ''gpu'' (JObj [])) ''temp'' JNull,
          gpu_name = field_of (field_of v ''gpu'' (JObj [])) ''name'' (JStr ''GPU''),
          ssds = ssd_entries (field_of v ''ssds'' (JArr []))\<rparr>)"
proof -
  from assms(1) have o: "is_obj v" and t: "truthy (field_of v ''success'' JNull)"
    by (simp_all add: well_shaped_def)
  from o have "truthy v \<or> v = JObj []" by (cases v) (auto simp: is_obj_def)
  with t have "truthy v" by (auto simp: field_of_def)
  with assms(2) t show ?thesis
    by (auto simp: get_temperatures_def run_powershell_def Let_def py_get_obj [OF o]
        build_result_well_shaped [OF assms(1)])
qed

text \<open>
  Claim C7, as stated: for every outcome of the helper \<^verbatim>\<open>get_temperatures\<close> never
  raises, and on a timeout, on malformed or empty output and on a status that is not a
  success it returns the empty result and records a cause. It fails twice. When the
  helper prints a document whose \<^verbatim>\<open>success\<close> is false, the empty result is returned
  and \<^verbatim>\<open>last_error\<close> stays \<^verbatim>\<open>None\<close>: nothing is recorded. When the helper prints
  a success document whose \<^verbatim>\<open>cpu\<close> is \<^verbatim>\<open>null\<close>, \<^verbatim>\<open>data.get('cpu', {})\<close> is
  \<^verbatim>\<open>None\<close> and the call raises \<^verbatim>\<open>AttributeError\<close>.
\<close>

theorem get_temperatures_cause_or_raise_counterexample:
  "get_temperatures (init_reader True) True (Parsed no_success) =
     (Inr None, \<lparr>last_error = None, dll_available = True\<rparr>) \<and>
   fst (get_temperatures (init_reader True) True
          (Parsed (JObj [(''success'', JBool True), (''cpu'', JNull)]))) =
     Inl AttributeError"
  by code_simp

text \<open>
  Claim C7, amended. \<^verbatim>\<open>get_temperatures\<close> returns the empty result, without raising,
  when the DLL is missing and on every failure of the helper: a timeout, an exception,
  output that does not decode, no output, a falsy document, a document object whose
  \<^verbatim>\<open>success\<close> is falsy. A cause is recorded in \<^verbatim>\<open>last_error\<close> on a timeout, on an
  exception, on output that does not decode, and on empty output with a standard error
  that is not empty; in every other case \<^verbatim>\<open>last_error\<close> keeps the value it had. On a
  success document of the interface's shape the reading holds the CPU and GPU values
  (each possibly \<^verbatim>\<open>None\<close>) and names, and exactly the storage entries with a
  temperature, in their order; and whatever reading is returned has no storage entry
  without a temperature.
\<close>

theorem get_temperatures_outcomes:
  "(reports_failure out \<or> (\<not> dll_available rd \<and> \<not> e) \<longrightarrow>
      fst (get_temperatures rd e out) = Inr None) \<and>
   last_error (snd (get_temperatures rd e out)) =
     (if \<not> dll_available rd \<and> \<not> e then last_error rd
      else case recorded_cause out of None \<Rightarrow> last_error rd | Some m \<Rightarrow> Some m) \<and>
   (well_shaped v \<and> (dll_available rd' \<or> e') \<longrightarrow>
      fst (get_temperatures rd' e' (Parsed v)) =
        Inr (Some \<lparr>cpu = field_of (field_of v ''cpu'' (JObj [])) ''temp'' JNull,
          cpu_name = field_of (field_of v ''cpu'' (JObj [])) ''name'' (JStr ''CPU''),
          gpu = field_of (field_of v ''gpu'' (JObj [])) ''temp'' JNull,
          gpu_name = field_of (field_of v ''gpu'' (JObj [])) ''name'' (JStr ''GPU''),
          ssds = ssd_entries (field_of v ''ssds'' (JArr []))\<rparr>)) \<and>
   (fst (get_temperatures rd' e' out') = Inr (Some r) \<longrightarrow>
      list_all (\<lambda>d. temp d \<noteq> JNull) (ssds r))"
proof -
  have a: "fst (get_temperatures rd e out) = Inr None"
    if "reports_failure out \<or> (\<not> dll_available rd \<and> \<not> e)"
    using that get_temperatures_failure [of out rd e] get_temperatures_no_dll [of rd out]
    by (cases e) auto
  have d: "list_all (\<lambda>d. temp d \<noteq> JNull) (ssds r)"
    if "fst (get_temperatures rd' e' out') = Inr (Some r)"
    using that get_temperatures_have_temp [of rd' e' out' r "snd (get_temperatures rd' e' out')"]
    by (cases "get_temperatures rd' e' out'") simp
  from a d get_temperatures_cause [of rd e out] get_temperatures_well_shaped [of v rd' e']
  show ?thesis by blast
qed

theorem get_temperatures_outcomes_witness:
  "reports_failure TimeoutExpired \<and>
   fst (get_temperatures (init_reader True) True TimeoutExpired) = Inr None \<and>
   last_error (snd (get_temperatures (init_reader True) True TimeoutExpired)) =
     Some ''Timeout reading temperature'' \<and>
   well_shaped cool_cpu_hot_ssd \<and> dll_available (init_reader True) \<and>
   fst (get_temperatures (init_reader True) True (Parsed cool_cpu_hot_ssd)) =
     Inr (Some \<lparr>cpu = JNum 50, cpu_name = JStr ''i7-12700KF'', gpu = JNull,
       gpu_name = JStr ''RTX 3070'',
       ssds = [\<lparr>name = JStr ''Samsung SSD 980 PRO 1TB'', temp = JNum 75\<rparr>]\<rparr>) \<and>
   list_all (\<lambda>d. temp d \<noteq> JNull) [\<lparr>name = JStr ''Samsung SSD 980 PRO 1TB'', temp = JNum 75\<rparr>]"
proof -
  have f: "reports_failure TimeoutExpired"
    by (simp add: reports_failure_def)
  have w: "well_shaped cool_cpu_hot_ssd" "dll_available (init_reader True)"
    by code_simp+
  have g: "fst (get_temperatures (init_reader True) True (Parsed cool_cpu_hot_ssd)) =
     Inr (Some \<lparr>cpu = JNum 50, cpu_name = JStr ''i7-12700KF'', gpu = JNull,
       gpu_name = JStr ''RTX 3070'',
       ssds = [\<lparr>name = JStr ''Samsung SSD 980 PRO 1TB'', temp = JNum 75\<rparr>]\<rparr>)"
    by code_simp
  have c: "recorded_cause TimeoutExpired = Some ''Timeout reading temperature''"
    by (simp add: recorded_cause_def)
  note t = get_temperatures_outcomes [of TimeoutExpired "init_reader True" True
      cool_cpu_hot_ssd "init_reader True" True "Parsed cool_cpu_hot_ssd"
      "\<lparr>cpu = JNum 50, cpu_name = JStr ''i7-12700KF'', gpu = JNull,
         gpu_name = JStr ''RTX 3070'',
         ssds = [\<lparr>name = JStr ''Samsung SSD 980 PRO 1TB'', temp = JNum 75\<rparr>]\<rparr>"]
  from t f have "fst (get_temperatures (init_reader True) True TimeoutExpired) = Inr None"
    by blast
  moreover from t c w(2)
  have "last_error (snd (get_temperatures (init_reader True) True TimeoutExpired)) =
     Some ''Timeout reading temperature''"
    by simp
  moreover from t g
  have "list_all (\<lambda>d. temp d \<noteq> JNull)
          [\<lparr>name = JStr ''Samsung SSD 980 PRO 1TB'', temp = JNum 75\<rparr>]"
    by simp
  ultimately show ?thesis using f w g by blast
qed

text \<open>
  Claim C8. The reader's flag \<^verbatim>\<open>dll_available\<close> is set at construction to what the
  file system answers then. While the flag is true a poll does not look at the file
  system: the result is the same whatever it would answer, and the flag stays true.
  While the flag is false every poll asks again and stores the answer: if the file is
  still missing the poll gives up with the empty result and the reader as it was; if
  the file is there now the poll goes on exactly as a poll of a reader whose flag is
  true, so it succeeds when the helper does, with no restart.
\<close>

theorem dll_presence_cached_and_rechecked:
  "dll_available (init_reader e0) = e0 \<and>
   (dll_available rd \<longrightarrow>
      run_powershell rd e out = run_powershell rd e' out \<and>
      get_temperatures rd e out = get_temperatures rd e' out \<and>
      dll_available (snd (get_temperatures rd e out))) \<and>
   (\<not> dll_available rd' \<longrightarrow>
      dll_available (snd (get_temperatures rd' e out)) = e \<and>
      get_temperatures rd' False out = (Inr None, rd') \<and>
      get_temperatures rd' True out = get_temperatures (rd'\<lparr>dll_available := True\<rparr>) True out)"
proof -
  have "dll_available (init_reader e0) = e0"
    by (simp add: init_reader_def)
  moreover have "run_powershell rd e out = run_powershell rd e' out" if "dll_available rd"
    using that by (simp add: run_powershell_def)
  ultimately show ?thesis
    using get_temperatures_dll_cached [of rd e out e'] get_temperatures_dll_after [of rd e out]
      get_temperatures_dll_after [of rd' e out] get_temperatures_no_dll [of rd' out]
      get_temperatures_dll_appears [of rd' out]
    by blast
qed

theorem dll_presence_witness:
  "dll_available (init_reader True) \<and>
   get_temperatures (init_reader True) True (Parsed hot_cpu) =
     get_temperatures (init_reader True) False (Parsed hot_cpu) \<and>
   dll_available (snd (get_temperatures (init_reader True) False (Parsed hot_cpu))) \<and>
   \<not> dll_available (init_reader False) \<and>
   get_temperatures (init_reader False) False (Parsed hot_cpu) = (Inr None, init_reader False) \<and>
   dll_available (snd (get_temperatures (init_reader False) True (Parsed hot_cpu))) \<and>
   get_temperatures (init_reader False) True (Parsed hot_cpu) =
     get_temperatures ((init_reader False)\<lparr>dll_available := True\<rparr>) True (Parsed hot_cpu) \<and>
   fst (get_temperatures (init_reader False) True (Parsed hot_cpu)) =
     Inr (Some \<lparr>cpu = JNum 95, cpu_name = JStr ''i7-12700KF'', gpu = JNum 60,
       gpu_name = JStr ''RTX 3070'', ssds = []\<rparr>)"
proof -
  have p: "dll_available (init_reader True)" and a: "\<not> dll_available (init_reader False)"
    by (simp_all add: init_reader_def)
  have s: "fst (get_temperatures (init_reader False) True (Parsed hot_cpu)) =
     Inr (Some \<lparr>cpu = JNum 95, cpu_name = JStr ''i7-12700KF'', gpu = JNum 60,
       gpu_name = JStr ''RTX 3070'', ssds = []\<rparr>)"
    by code_simp
  from dll_presence_cached_and_rechecked
    [of True "init_reader True" True "Parsed hot_cpu" False "init_reader False"] p a
  have "get_temperatures (init_reader True) True (Parsed hot_cpu) =
          get_temperatures (init_reader True) False (Parsed hot_cpu)"
    and "get_temperatures (init_reader False) False (Parsed hot_cpu) = (Inr None, init_reader False)"
    and "get_temperatures (init_reader False) True (Parsed hot_cpu) =
          get_temperatures ((init_reader False)\<lparr>dll_available := True\<rparr>) True (Parsed hot_cpu)"
    by blast+
  moreover from dll_presence_cached_and_rechecked
    [of True "init_reader True" False "Parsed hot_cpu" False "init_reader False"] p
  have "dll_available (snd (get_temperatures (init_reader True) False (Parsed hot_cpu)))"
    by blast
  moreover from dll_presence_cached_and_rechecked
    [of True "init_reader True" True "Parsed hot_cpu" False "init_reader False"] a
  have "dll_available (snd (get_temperatures (init_reader False) True (Parsed hot_cpu)))"
    by blast
  ultimately show ?thesis using p a s by blast
qed

subsection \<open>The picture and the tooltip\<close>

lemma update_icon_image:
  assumes "icon s = Some ic"
    and "d = display_temp (temps s)"
    and "d \<noteq> JNull \<longrightarrow> as_number d \<noteq> None"
  shows "map_option icon_image (icon (snd (update_icon s))) =
           Some (create_temp_icon (as_number d)
             (case as_number d of None \<Rightarrow> False | Some x \<Rightarrow> 80 \<le> x)
             (case as_number d of None \<Rightarrow> False | Some x \<Rightarrow> 90 \<le> x)
             (d = JNull))"
proof (cases "d = JNull")
  case True
  with assms(1,2) show ?thesis
    by (auto simp: update_icon_def Let_def present_and_ge_def split: sum.splits)
next
  case False
  with assms(3) obtain x where "as_number d = Some x" by auto
  with False assms(1,2) show ?thesis
    by (auto simp: update_icon_def Let_def present_and_ge_def py_ge_def TEMP_CRITICAL_CPU_def
        split: sum.splits)
qed

lemma update_icon_fields:
  "running (snd (update_icon s)) = running s"
  "temp_reader (snd (update_icon s)) = temp_reader s"
  "error_shown (snd (update_icon s)) = error_shown s"
  by (auto simp: update_icon_def Let_def split: option.splits sum.splits)

lemma tooltip_lines_empty: "tooltip_lines None = Inr []"
  by (simp add: tooltip_lines_def tooltip_line_def temps_get_def temps_ssds_def and_then_def)

lemma update_icon_no_data: "temps s = None \<Longrightarrow> fst (update_icon s) = None"
  by (auto simp: update_icon_def Let_def display_temp_def temps_get_def present_and_ge_def
      tooltip_lines_empty split: option.splits)

text \<open>
  Claim C4. For every monitor with an icon, let the display value be the stored
  reading's CPU value when that is not \<^verbatim>\<open>None\<close> and its GPU value otherwise
  (\<^verbatim>\<open>None\<close> when both are, or when the stored reading is empty). When the display
  value is \<^verbatim>\<open>None\<close> or a number, \<^verbatim>\<open>update_icon\<close> makes the icon's picture from the
  display value, and the picture's tier is NoData when the value is \<^verbatim>\<open>None\<close>,
  Critical from 90 on, Warning from 80 on, Normal below; the bounds are the same when
  the value shown is the GPU's.
\<close>

theorem update_icon_glyph:
  assumes "icon s = Some ic"
    and "d = (if temps_get (temps s) cpu \<noteq> JNull then temps_get (temps s) cpu
              else temps_get (temps s) gpu)"
    and "d \<noteq> JNull \<longrightarrow> as_number d \<noteq> None"
  shows "\<exists>ic'. icon (snd (update_icon s)) = Some ic' \<and>
           (\<exists>w c n. icon_image ic' = create_temp_icon (as_number d) w c n) \<and>
           glyph_tier (icon_image ic') =
             Some (case as_number d of
                     None \<Rightarrow> NoData
                   | Some x \<Rightarrow> if 90 \<le> x then Critical else if 80 \<le> x then Warning else Normal)"
proof -
  from assms(2) have d: "d = display_temp (temps s)" by (simp add: display_temp_def)
  from update_icon_image [OF assms(1) d assms(3)] obtain ic' where
    ic': "icon (snd (update_icon s)) = Some ic'" and
    im: "icon_image ic' = create_temp_icon (as_number d)
             (case as_number d of None \<Rightarrow> False | Some x \<Rightarrow> 80 \<le> x)
             (case as_number d of None \<Rightarrow> False | Some x \<Rightarrow> 90 \<le> x)
             (d = JNull)"
    by auto
  have "glyph_tier (icon_image ic') =
          Some (case as_number d of
                  None \<Rightarrow> NoData
                | Some x \<Rightarrow> if 90 \<le> x then Critical else if 80 \<le> x then Warning else Normal)"
    using assms(3)
    by (cases d) (auto simp: im glyph_tier_def create_temp_icon_def split: option.splits)
  with ic' im show ?thesis by blast
qed

theorem update_icon_glyph_witness:
  "icon gpu_only_stored \<noteq> None \<and>
   temps_get (temps gpu_only_stored) cpu = JNull \<and>
   temps_get (temps gpu_only_stored) gpu = JNum 86 \<and>
   as_number (JNum 86) = Some 86 \<and>
   (\<exists>ic'. icon (snd (update_icon gpu_only_stored)) = Some ic' \<and>
      (\<exists>w c n. icon_image ic' = create_temp_icon (Some 86) w c n) \<and>
      glyph_tier (icon_image ic') = Some Warning)"
proof -
  obtain ic where i: "icon gpu_only_stored = Some ic"
    by (cases "icon gpu_only_stored") (simp_all, code_simp)
  have c: "temps_get (temps gpu_only_stored) cpu = JNull"
    and g: "temps_get (temps gpu_only_stored) gpu = JNum 86"
    by code_simp+
  have d: "JNum 86 = (if temps_get (temps gpu_only_stored) cpu \<noteq> JNull
                      then temps_get (temps gpu_only_stored) cpu
                      else temps_get (temps gpu_only_stored) gpu)"
    by (simp add: c g)
  have n: "JNum 86 \<noteq> JNull \<longrightarrow> as_number (JNum 86) \<noteq> None"
    by simp
  from update_icon_glyph [OF i d n] have
    "\<exists>ic'. icon (snd (update_icon gpu_only_stored)) = Some ic' \<and>
      (\<exists>w c n. icon_image ic' = create_temp_icon (Some 86) w c n) \<and>
      glyph_tier (icon_image ic') = Some Warning"
    by simp
  with i c g show ?thesis by simp
qed

lemma py_int_cuts:
  "\<bar>of_int (py_int x)\<bar> \<le> \<bar>x\<bar> \<and> \<bar>x\<bar> < \<bar>of_int (py_int x)\<bar> + 1 \<and>
   0 \<le> of_int (py_int x) * x"
proof (cases "x < 0")
  case True
  then have p: "py_int x = \<lceil>x\<rceil>" by (simp add: py_int_def)
  from True have "\<lceil>x\<rceil> \<le> 0" by (simp add: ceiling_le_zero)
  then have le: "rat_of_int \<lceil>x\<rceil> \<le> 0" by simp
  have b: "x \<le> of_int \<lceil>x\<rceil>" "of_int \<lceil>x\<rceil> < x + 1" by linarith+
  from True le have "0 \<le> of_int \<lceil>x\<rceil> * x"
    by (simp add: mult_nonpos_nonpos)
  with True le b show ?thesis by (simp add: p)
next
  case False
  then have p: "py_int x = \<lfloor>x\<rfloor>" by (simp add: py_int_def)
  from False have ge: "0 \<le> rat_of_int \<lfloor>x\<rfloor>" by simp
  have b: "of_int \<lfloor>x\<rfloor> \<le> x" "x < of_int \<lfloor>x\<rfloor> + 1" by linarith+
  with False ge show ?thesis by (simp add: p)
qed

lemma digit_value_digit_char_all: "\<forall>d\<in>set [0..<10]. digit_value (digit_char d) = d"
  by code_simp

lemma digit_value_digit_char: "d < 10 \<Longrightarrow> digit_value (digit_char d) = d"
  using digit_value_digit_char_all by simp

lemma decimal_value_digits_of: "decimal_value (digits_of n) = n"
proof (induction n rule: digits_of.induct)
  case (1 n)
  show ?case
  proof (cases "n < 10")
    case True
    then show ?thesis
      by (simp add: digits_of.simps [of n] decimal_value_def digit_value_digit_char)
  next
    case False
    with 1 have "decimal_value (digits_of (n div 10)) = n div 10" by simp
    with False show ?thesis
      by (simp add: digits_of.simps [of n] decimal_value_def digit_value_digit_char)
  qed
qed

text \<open>
  Claim C9, as stated: the label in the picture is the display value rounded to the
  nearest integer, so that 79.6 is shown as 80. The code shows 79.
\<close>

theorem label_rounds_counterexample:
  "temp_text (create_temp_icon (Some (796 / 10)) False False False) = ''79'' \<and>
   rounded_label (796 / 10) = ''80''"
  by code_simp

text \<open>
  Claim C9, amended. The label is the question mark when there is no display value, and
  otherwise the decimal numeral of \<^verbatim>\<open>int(temp)\<close>, the value with its fraction cut
  off: a minus sign when that integer is negative, then the digits that denote its
  magnitude; the integer has the sign of the value (or is zero), and its magnitude is
  the greatest that does not exceed the value's.
\<close>

theorem label_truncates:
  "temp_text (create_temp_icon None w c n) = ''?'' \<and>
   temp_text (create_temp_icon (Some x) w c n) =
     (if py_int x < 0 then ''-'' else []) @ digits_of (nat \<bar>py_int x\<bar>) \<and>
   decimal_value (digits_of (nat \<bar>py_int x\<bar>)) = nat \<bar>py_int x\<bar> \<and>
   \<bar>of_int (py_int x)\<bar> \<le> \<bar>x\<bar> \<and> \<bar>x\<bar> < \<bar>of_int (py_int x)\<bar> + 1 \<and>
   0 \<le> of_int (py_int x) * x"
  using py_int_cuts [of x] decimal_value_digits_of [of "nat \<bar>py_int x\<bar>"]
  by (simp add: create_temp_icon_def str_int_def)

subsection \<open>The log of poll failures\<close>

lemma check_temperatures_failing:
  assumes "get_temperatures (temp_reader s) e out = (Inr None, rd)"
  shows "raised (check_temperatures s e out t) = None"
    and "printed (check_temperatures s e out t) =
           (if error_shown s then [] else error_text (last_error rd))"
    and "error_shown (after (check_temperatures s e out t))"
    and "running (after (check_temperatures s e out t)) = running s"
    and "temps (after (check_temperatures s e out t)) = None"
  using assms
  by (cases "error_shown s";
      simp add: check_temperatures_first_failure
        check_temperatures_counted [OF _ _ critical_components_empty]
        count_and_alert_def polled_def Let_def)+

lemma loop_body_failing:
  assumes "get_temperatures (temp_reader s) (dll_exists i) (helper i) = (Inr None, rd)"
  shows "printed (loop_body s i) = (if error_shown s then [] else error_text (last_error rd))"
    and "error_shown (after (loop_body s i))"
    and "running (after (loop_body s i)) = running s"
proof -
  let ?c = "check_temperatures s (dll_exists i) (helper i) (now i)"
  note c = check_temperatures_failing [OF assms, of "now i"]
  from c(5) have "fst (update_icon (after ?c)) = None" by (rule update_icon_no_data)
  then obtain s' where "update_icon (after ?c) = (None, s')"
    by (cases "update_icon (after ?c)") auto
  then have lb: "loop_body s i = ?c\<lparr>after := snd (update_icon (after ?c))\<rparr>"
    by (simp add: loop_body_def Let_def c(1))
  show "printed (loop_body s i) = (if error_shown s then [] else error_text (last_error rd))"
    by (simp add: lb c(2))
  show "error_shown (after (loop_body s i))"
    by (simp add: lb update_icon_fields c(3))
  show "running (after (loop_body s i)) = running s"
    by (simp add: lb update_icon_fields c(4))
qed

text \<open>Once the flag is set, passes whose polls fail print nothing and keep it set.\<close>

lemma polls_fail_quiet:
  "polls_fail s is \<Longrightarrow> error_shown s \<Longrightarrow>
     concat (map printed (monitoring_loop s is)) = [] \<and>
     list_all (\<lambda>c. error_shown (after c)) (monitoring_loop s is)"
proof (induction "is" arbitrary: s)
  case Nil
  then show ?case by simp
next
  case (Cons i "is")
  obtain rd where g: "get_temperatures (temp_reader s) (dll_exists i) (helper i) = (Inr None, rd)"
    using Cons.prems(1)
    by (cases "get_temperatures (temp_reader s) (dll_exists i) (helper i)") auto
  note lb = loop_body_failing [OF g]
  from Cons.prems(1) have "polls_fail (after (loop_body s i)) is" by simp
  from Cons.IH [OF this lb(2)] lb(1,2) Cons.prems(2)
  show ?case by (simp add: Let_def)
qed

lemma check_temperatures_success_clears:
  assumes "get_temperatures (temp_reader s) e out = (Inr (Some r), rd)"
  shows "\<not> error_shown (after (check_temperatures s e out t))"
  using assms
  by (cases "critical_components (Some r)")
    (simp_all add: check_temperatures_components_raised check_temperatures_counted
      polled_def count_and_alert_def Let_def)

text \<open>
  Claim C6, as stated: the poll-failure line is printed on the first failing pass that
  follows a successful read, so five passes in a row whose polls fail print it once,
  on the first of them. When the helper reports each time that it failed, the reader
  records no cause: after a pass that read a document successfully, the five failing
  passes print nothing at all.
\<close>

theorem poll_failure_logged_once_counterexample:
  "monitoring_loop started [tick_at 0 (Parsed calm)] \<noteq> [] \<and>
   temps after_one_calm_tick =
     Some \<lparr>cpu = JNum 50, cpu_name = JStr ''i7-12700KF'', gpu = JNum 40,
       gpu_name = JStr ''RTX 3070'', ssds = []\<rparr> \<and>
   length five_quiet_failures = 5 \<and> polls_fail after_one_calm_tick five_quiet_failures \<and>
   length (monitoring_loop after_one_calm_tick five_quiet_failures) = 5 \<and>
   concat (map printed (monitoring_loop after_one_calm_tick five_quiet_failures)) = []"
  by code_simp

text \<open>
  Claim C6, amended. Over any run of one or more passes of the loop whose polls all
  fail (each returns the empty result): the lines printed in the whole run are those
  of its first pass; that pass prints the poll-failure line if and only if the flag
  \<^verbatim>\<open>error_shown\<close> was clear before it and the reader holds a cause that is not empty
  after its poll, and it prints the line once; every pass of the run leaves the flag
  set. The flag is cleared by any call whose poll returns a reading. So five failing
  passes in a row print at most one line, and only the first of them can.
\<close>

theorem poll_failure_logged_at_most_once:
  "(polls_fail s (i # is) \<longrightarrow>
      concat (map printed (monitoring_loop s (i # is))) =
        (if running s \<and> \<not> error_shown s
         then error_text
                (last_error (snd (get_temperatures (temp_reader s) (dll_exists i) (helper i))))
         else []) \<and>
      concat (map printed (tl (monitoring_loop s (i # is)))) = [] \<and>
      list_all (\<lambda>c. error_shown (after c)) (monitoring_loop s (i # is))) \<and>
   error_text None = [] \<and> error_text (Some []) = [] \<and>
   error_text (Some (x # m)) = [PollError (x # m)] \<and>
   (get_temperatures (temp_reader s') e out = (Inr (Some r), rd) \<longrightarrow>
      \<not> error_shown (after (check_temperatures s' e out t)))"
proof -
  have seq: "concat (map printed (monitoring_loop s (i # is))) =
        (if running s \<and> \<not> error_shown s
         then error_text
                (last_error (snd (get_temperatures (temp_reader s) (dll_exists i) (helper i))))
         else []) \<and>
      concat (map printed (tl (monitoring_loop s (i # is)))) = [] \<and>
      list_all (\<lambda>c. error_shown (after c)) (monitoring_loop s (i # is))"
    if pf: "polls_fail s (i # is)"
  proof -
    obtain rd' where
      g: "get_temperatures (temp_reader s) (dll_exists i) (helper i) = (Inr None, rd')"
      using pf by (cases "get_temperatures (temp_reader s) (dll_exists i) (helper i)") auto
    note lb = loop_body_failing [OF g]
    from pf have "polls_fail (after (loop_body s i)) is" by simp
    from polls_fail_quiet [OF this lb(2)] lb(1,2) g
    show ?thesis by (simp add: Let_def)
  qed
  have et: "error_text None = [] \<and> error_text (Some []) = [] \<and>
      error_text (Some (x # m)) = [PollError (x # m)]"
    by (simp add: error_text_def)
  from seq et check_temperatures_success_clears [of s' e out r rd t]
  show ?thesis by blast
qed

theorem poll_failure_logged_witness:
  "polls_fail after_one_calm_tick five_failures \<and> length five_failures = 5 \<and>
   concat (map printed (monitoring_loop after_one_calm_tick five_failures)) =
     [PollError ''Access denied''] \<and>
   printed (hd (monitoring_loop after_one_calm_tick five_failures)) =
     [PollError ''Access denied''] \<and>
   concat (map printed (tl (monitoring_loop after_one_calm_tick five_failures))) = [] \<and>
   list_all (\<lambda>c. error_shown (after c)) (monitoring_loop after_one_calm_tick five_failures) \<and>
   error_shown after_five_failures \<and>
   fst (get_temperatures (temp_reader after_five_failures) True (Parsed hot_cpu)) =
     Inr (Some \<lparr>cpu = JNum 95, cpu_name = JStr ''i7-12700KF'', gpu = JNum 60,
       gpu_name = JStr ''RTX 3070'', ssds = []\<rparr>) \<and>
   \<not> error_shown (after (check_temperatures after_five_failures True (Parsed hot_cpu) 18))"
proof -
  have f: "five_failures =
      tick_at 3 (NoOutput ''Access denied'') #
      map (\<lambda>t. tick_at t (NoOutput ''Access denied'')) [6, 9, 12, 15]"
    by (simp add: five_failures_def)
  have pf: "polls_fail after_one_calm_tick five_failures" and len: "length five_failures = 5"
    by code_simp+
  have hd: "printed (hd (monitoring_loop after_one_calm_tick five_failures)) =
      [PollError ''Access denied'']"
    and es: "error_shown after_five_failures"
    by code_simp+
  have rs: "running after_one_calm_tick \<and> \<not> error_shown after_one_calm_tick"
    by code_simp
  have le: "error_text (last_error (snd (get_temperatures (temp_reader after_one_calm_tick)
        (dll_exists (tick_at 3 (NoOutput ''Access denied'')))
        (helper (tick_at 3 (NoOutput ''Access denied'')))))) = [PollError ''Access denied'']"
    by code_simp
  obtain r rd where
    g: "get_temperatures (temp_reader after_five_failures) True (Parsed hot_cpu) =
          (Inr (Some r), rd)"
    and r: "r = \<lparr>cpu = JNum 95, cpu_name = JStr ''i7-12700KF'', gpu = JNum 60,
       gpu_name = JStr ''RTX 3070'', ssds = []\<rparr>"
  proof -
    have "fst (get_temperatures (temp_reader after_five_failures) True (Parsed hot_cpu)) =
        Inr (Some \<lparr>cpu = JNum 95, cpu_name = JStr ''i7-12700KF'', gpu = JNum 60,
          gpu_name = JStr ''RTX 3070'', ssds = []\<rparr>)"
      by code_simp
    then show ?thesis
      using that
      by (cases "get_temperatures (temp_reader after_five_failures) True (Parsed hot_cpu)") simp
  qed
  note t = poll_failure_logged_at_most_once
    [of after_one_calm_tick "tick_at 3 (NoOutput ''Access denied'')"
      "map (\<lambda>t. tick_at t (NoOutput ''Access denied'')) [6, 9, 12, 15]"
      "CHR ''A''" "''ccess denied''" after_five_failures True "Parsed hot_cpu" r rd 18,
      folded f]
  from t pf rs le have
    "concat (map printed (monitoring_loop after_one_calm_tick five_failures)) =
       [PollError ''Access denied'']"
    "concat (map printed (tl (monitoring_loop after_one_calm_tick five_failures))) = []"
    "list_all (\<lambda>c. error_shown (after c)) (monitoring_loop after_one_calm_tick five_failures)"
    by simp_all
  moreover from t g have
    "\<not> error_shown (after (check_temperatures after_five_failures True (Parsed hot_cpu) 18))"
    by blast
  ultimately show ?thesis using pf len hd es g r by simp
qed

subsection \<open>Runs of the loop on given inputs\<close>

text \<open>
  Claim C2 says that every pass steps the counter \<^verbatim>\<open>critical_count\<close>: one up when a
  component is critical, back to 0 otherwise, a pass whose poll fails included. The
  code returns from \<^verbatim>\<open>check_temperatures\<close> before the counter on the first failing
  pass after a success. Here a critical pass, a pass whose poll fails and another
  critical pass leave the counter at 1, 1 and 2, and the third pass sends an alert,
  though no two critical passes followed one another.
\<close>

theorem counter_kept_by_first_failing_pass:
  "fst (get_temperatures (temp_reader after_one_hot_tick) True (NoOutput [])) = Inr None \<and>
   map (\<lambda>c. (critical_count (after c), length (notified c)))
     (monitoring_loop started hot_fail_hot) = [(1, 0), (1, 0), (2, 1)]"
  by code_simp

lemma tooltip_ssds_ignores_names:
  "tooltip_ssds (map (\<lambda>d. \<lparr>name = JStr (f d), temp = temp d\<rparr>) ds) =
   tooltip_ssds (map (\<lambda>d. \<lparr>name = JStr (g d), temp = temp d\<rparr>) ds)"
  by (induction ds) (simp_all split: sum.splits)

text \<open>
  Claim C5 says that the tooltip has one line for each component present, CPU, GPU,
  then the storage devices in their order, each storage line with the device's label
  cut to 15 characters, and that it is \<^verbatim>\<open>No data\<close> when nothing is present. The
  code computes the shortened label and leaves it out of the line: a reading with
  the CPU at 50 degrees and one storage device at 75 gives the same tooltip whatever
  the device is called, and the label is not in it; for any storage entries the lines
  are the same whatever strings the names are.
\<close>

theorem tooltip_leaves_label_out:
  "map_option title (icon (after (loop_body started (tick_at 100 (Parsed cool_cpu_hot_ssd))))) =
     Some (''CPU: 50'' @ deg_C @ '' | SSD: 75'' @ deg_C) \<and>
   map_option title (icon (after (loop_body started
       (tick_at 100 (Parsed (document (JNum 50) JNull [sensor ''WD Blue'' (JNum 75)])))))) =
     Some (''CPU: 50'' @ deg_C @ '' | SSD: 75'' @ deg_C) \<and>
   map_option title (icon (after (loop_body started (tick_at 100 (Parsed no_success))))) =
     Some ''No data'' \<and>
   tooltip_ssds (map (\<lambda>d. \<lparr>name = JStr (f d), temp = temp d\<rparr>) ds) =
     tooltip_ssds (map (\<lambda>d. \<lparr>name = JStr (g d), temp = temp d\<rparr>) ds)"
proof -
  have "map_option title (icon (after (loop_body started (tick_at 100 (Parsed cool_cpu_hot_ssd))))) =
     Some (''CPU: 50'' @ deg_C @ '' | SSD: 75'' @ deg_C)"
    by code_simp
  moreover have "map_option title (icon (after (loop_body started
       (tick_at 100 (Parsed (document (JNum 50) JNull [sensor ''WD Blue'' (JNum 75)])))))) =
     Some (''CPU: 50'' @ deg_C @ '' | SSD: 75'' @ deg_C)"
    by code_simp
  moreover have
    "map_option title (icon (after (loop_body started (tick_at 100 (Parsed no_success))))) =
     Some ''No data''"
    by code_simp
  ultimately show ?thesis
    using tooltip_ssds_ignores_names [of f ds g] by blast
qed

text \<open>
  Claim C10. There is a reading for which a critical alert is sent on a pass whose
  picture is green: with the CPU at 50 degrees and one storage device at 75, in two
  passes in a row at times 100 and 103 from a new monitor, the second pass sends the
  alert whose text names the storage value, and the picture after either pass has the
  tier Normal.
\<close>

theorem alert_with_normal_glyph:
  "map (\<lambda>c. (map n_message (notified c), map n_critical (notified c),
             map_option (\<lambda>ic. glyph_tier (icon_image ic)) (icon (after c))))
     (monitoring_loop started
        [tick_at 100 (Parsed cool_cpu_hot_ssd), tick_at 103 (Parsed cool_cpu_hot_ssd)]) =
   [([], [], Some (Some Normal)),
    ([''SSD: 75'' @ deg_C @ [CHR 0x0A] @ ''Check your system cooling!''], [True],
     Some (Some Normal))]"
  by code_simp

end
